theory Spec2Isabelle
  imports Main
begin

section \<open>Values, events and the effect monad\<close>

text \<open>
  The publisher is a sequential Python script. Its only effects are lines written by
  \<^verbatim>\<open>print\<close>, records written by \<^verbatim>\<open>logger.info\<close>, HTTP requests
  issued by \<^verbatim>\<open>requests.put\<close>, and exceptions. A run is modelled as a function
  from the trace of events so far to a result (an exception or a value) and the extended trace.

  An \<open>exn\<close> is an instance of Python's \<^verbatim>\<open>Exception\<close>: its class name and the
  text \<^verbatim>\<open>str(e)\<close>. Asynchronous signals of the interpreter
  (\<^verbatim>\<open>KeyboardInterrupt\<close>, \<^verbatim>\<open>SystemExit\<close>) are not instances of
  \<^verbatim>\<open>Exception\<close>, are raised by no statement of the script, and are not modelled.
\<close>

datatype exn = Exn (exn_class: string) (exn_str: string)

text \<open>The arguments of \<^verbatim>\<open>requests.put(url, headers=..., data=..., timeout=...)\<close>.\<close>

record request =
  url :: string
  headers :: "(string \<times> string option) list"
  data :: string
  timeout :: nat

text \<open>The two attributes of a \<^verbatim>\<open>requests.Response\<close> that the script reads.\<close>

record response =
  status_code :: int
  resp_text :: string

text \<open>The Python values handed to \<^verbatim>\<open>json.dumps\<close>: strings and dictionaries.\<close>

datatype json = JStr string | JDict "(string \<times> json) list"

text \<open>
  Besides the effects proper, a trace records calls: \<open>Call f args\<close> is written on entry
  to the function \<open>f\<close> of the script or of the rendering module, so that theorems can
  speak of which functions ran, in which order and on which arguments.
\<close>

datatype event =
    Print string
  | Log string
  | Put request
  | Call string "string option list"

type_synonym 'a prog = "event list \<Rightarrow> (exn + 'a) \<times> event list"

definition ret :: "'a \<Rightarrow> 'a prog" where
  "ret x = (\<lambda>t. (Inr x, t))"

definition raise :: "exn \<Rightarrow> 'a prog" where
  "raise e = (\<lambda>t. (Inl e, t))"

definition bind :: "'a prog \<Rightarrow> ('a \<Rightarrow> 'b prog) \<Rightarrow> 'b prog" where
  "bind m k = (\<lambda>t. case m t of (Inl e, t') \<Rightarrow> (Inl e, t') | (Inr x, t') \<Rightarrow> k x t')"

text \<open>\<^verbatim>\<open>try: m except Exception as e: h(e)\<close>\<close>

definition try_except :: "'a prog \<Rightarrow> (exn \<Rightarrow> 'a prog) \<Rightarrow> 'a prog" where
  "try_except m h = (\<lambda>t. case m t of (Inl e, t') \<Rightarrow> h e t' | (Inr x, t') \<Rightarrow> (Inr x, t'))"

definition emit :: "event \<Rightarrow> unit prog" where
  "emit ev = (\<lambda>t. (Inr (), t @ [ev]))"

definition print :: "string \<Rightarrow> unit prog" where
  "print s = emit (Print s)"

text \<open>A call whose outcome is fixed by the outside world: it raises or returns.\<close>

definition outcome :: "exn + 'a \<Rightarrow> 'a prog" where
  "outcome r = (\<lambda>t. (r, t))"

subsection \<open>Python values\<close>

text \<open>
  \<^verbatim>\<open>os.getenv\<close> returns \<^verbatim>\<open>None\<close> or a string, so a configuration
  value is a \<open>string option\<close>. \<open>truthy\<close> is Python's truth test on such a value and
  \<open>fmt\<close> is what an f-string writes for it.
\<close>

fun truthy :: "string option \<Rightarrow> bool" where
  "truthy None = False"
| "truthy (Some s) = (s \<noteq> [])"

fun fmt :: "string option \<Rightarrow> string" where
  "fmt None = ''None''"
| "fmt (Some s) = s"

text \<open>\<^verbatim>\<open>str\<close> of a Python integer, as an f-string writes it.\<close>

function str_nat :: "nat \<Rightarrow> string" where
  "str_nat n =
     (if n < 10 then [''0123456789'' ! n]
      else str_nat (n div 10) @ [''0123456789'' ! (n mod 10)])"
  by pat_completeness auto
termination
  by (relation "measure id") auto

declare str_nat.simps [simp del]

definition str_int :: "int \<Rightarrow> string" where
  "str_int i = (if i < 0 then CHR ''-'' # str_nat (nat (- i)) else str_nat (nat i))"

section \<open>The outside world\<close>

text \<open>
  The libraries and the rendering module are not part of the script; they are parameters.
  \<open>requests_put\<close> gives the outcome of a request from the trace so far and the request:
  a response, or an exception raised by the call. \<open>json_dumps\<close> is \<^verbatim>\<open>json.dumps\<close>.
  \<open>elapsed\<close> is the text \<^verbatim>\<open>f"{elapsed:.2f}"\<close> computed from the clock.
\<close>

record world =
  requests_put :: "event list \<Rightarrow> request \<Rightarrow> exn + response"
  json_dumps :: "json \<Rightarrow> string"
  elapsed :: string

text \<open>
  The functions of the module \<^verbatim>\<open>shop_renderer\<close> that the script calls. Each takes no
  argument, queries the document store, and returns an HTML string or raises.
\<close>

record shop_renderer =
  get_featured_categories_html :: "exn + string"
  get_featured_products_html :: "exn + string"
  get_featured_bundles_html :: "exn + string"
  get_all_categories_html :: "exn + string"
  get_bundles_page_html :: "exn + string"

text \<open>The module-level names of \<^verbatim>\<open>agent1_core.py\<close>, assigned once at import.\<close>

record globals =
  APP_ID :: string
  SERVICE_ACCOUNT_PATH :: string
  SYSTEME_API_KEY :: "string option"
  SYSTEME_API_BASE :: string
  SYSTEME_WEBSITE_ID :: "string option"
  SYSTEME_HOME_PAGE_ID :: "string option"
  SYSTEME_CATEGORIES_PAGE_ID :: "string option"
  SYSTEME_CATEGORY_TEMPLATE_ID :: "string option"
  SYSTEME_PRODUCTS_PAGE_ID :: "string option"
  SYSTEME_PRODUCT_TEMPLATE_ID :: "string option"
  SYSTEME_BUNDLES_PAGE_ID :: "string option"
  SYSTEME_BUNDLE_TEMPLATE_ID :: "string option"
  SYSTEME_SEARCH_PAGE_ID :: "string option"
  SYSTEME_CONTACT_PAGE_ID :: "string option"
  SYSTEME_TERMS_PAGE_ID :: "string option"
  SYSTEME_PRIVACY_PAGE_ID :: "string option"

section \<open>The page updater\<close>

definition systeme_headers :: "globals \<Rightarrow> (string \<times> string option) list" where
  "systeme_headers g =
     [(''Content-Type'', Some ''application/json''),
      (''X-API-Key'', SYSTEME_API_KEY g)]"

text \<open>
  \<^verbatim>\<open>requests.put\<close>: the call is recorded with its arguments, then it returns a
  response or raises.
\<close>

definition put :: "world \<Rightarrow> request \<Rightarrow> response prog" where
  "put w req = (\<lambda>t. (requests_put w t req, t @ [Put req]))"

definition update_page :: "globals \<Rightarrow> world \<Rightarrow> string option \<Rightarrow> string \<Rightarrow> unit prog" where
  "update_page g w page_id html =
     bind (emit (Call ''_update_page'' [page_id, Some html])) (\<lambda>_.
     if \<not> truthy page_id then
       print ''[AGENT 01] Skipping page update (no page_id).''
     else
       let url = SYSTEME_API_BASE g @ ''/sites/'' @ fmt (SYSTEME_WEBSITE_ID g)
                   @ ''/pages/'' @ fmt page_id;
           payload = JDict [(''content'', JStr html)]
       in try_except
            (bind (put w \<lparr>url = url, headers = systeme_headers g,
                          data = json_dumps w payload, timeout = 60\<rparr>) (\<lambda>resp.
               if status_code resp \<ge> 200 \<and> status_code resp < 300 then
                 print (''[AGENT 01] Updated page '' @ fmt page_id @ '' successfully.'')
               else
                 print (''[AGENT 01] Failed to update page '' @ fmt page_id
                          @ ''. Status: '' @ str_int (status_code resp)
                          @ '', Body: '' @ resp_text resp)))
            (\<lambda>e. print (''[AGENT 01] ERROR updating page '' @ fmt page_id
                            @ '': '' @ exn_str e)))"

section \<open>Building the pages\<close>

text \<open>A call into \<^verbatim>\<open>shop_renderer\<close>: the call is recorded, then it returns or raises.\<close>

definition render :: "string \<Rightarrow> exn + string \<Rightarrow> string prog" where
  "render name r = bind (emit (Call name [])) (\<lambda>_. outcome r)"

text \<open>
  The page layouts are the f-strings of the source, one literal for each source line. The dash
  of the home page's headline is U+2014, written here as the three bytes of its UTF-8 encoding.
\<close>

definition build_home_page_html :: "shop_renderer \<Rightarrow> string prog" where
  \<open>build_home_page_html r =
     bind (emit (Call ''_build_home_page_html'' [])) (\<lambda>_.
     bind (render ''shop_renderer.get_featured_categories_html''
             (get_featured_categories_html r)) (\<lambda>featured_categories_html.
     bind (render ''shop_renderer.get_featured_products_html''
             (get_featured_products_html r)) (\<lambda>featured_products_html.
     bind (render ''shop_renderer.get_featured_bundles_html''
             (get_featured_bundles_html r)) (\<lambda>featured_bundles_html.
     ret (''\<newline>''
       @ ''<div class="husin-home">\<newline>''
       @ ''  <section class="hero">\<newline>''
       @ ''    <h1>HUSIN '' @ [CHR 0xE2, CHR 0x80, CHR 0x94] @ '' Curated Deals in Saudi Arabia</h1>\<newline>''
       @ ''    <p>Exclusive products, hot offers, and premium bundles. All prices in Saudi Riyal (SAR).</p>\<newline>''
       @ ''  </section>\<newline>''
       @ ''\<newline>''
       @ ''  <section class="section-block">\<newline>''
       @ ''    <h2>Featured Categories</h2>\<newline>''
       @ ''    <div class="card-grid">\<newline>''
       @ ''      ''
       @ featured_categories_html
       @ ''\<newline>''
       @ ''    </div>\<newline>''
       @ ''  </section>\<newline>''
       @ ''\<newline>''
       @ ''  <section class="section-block">\<newline>''
       @ ''    <h2>Featured Products</h2>\<newline>''
       @ ''    <div class="card-grid">\<newline>''
       @ ''      ''
       @ featured_products_html
       @ ''\<newline>''
       @ ''    </div>\<newline>''
       @ ''  </section>\<newline>''
       @ ''\<newline>''
       @ ''  <section class="section-block">\<newline>''
       @ ''    <h2>Featured Bundles</h2>\<newline>''
       @ ''    <div class="card-grid">\<newline>''
       @ ''      ''
       @ featured_bundles_html
       @ ''\<newline>''
       @ ''    </div>\<newline>''
       @ ''  </section>\<newline>''
       @ ''</div>\<newline>'')))))\<close>

definition build_categories_page_html :: "shop_renderer \<Rightarrow> string prog" where
  \<open>build_categories_page_html r =
     bind (emit (Call ''_build_categories_page_html'' [])) (\<lambda>_.
     bind (render ''shop_renderer.get_all_categories_html''
             (get_all_categories_html r)) (\<lambda>categories_html.
     ret (''\<newline>''
       @ ''<div class="husin-categories">\<newline>''
       @ ''  <h1>All Categories</h1>\<newline>''
       @ ''  <div class="card-grid">\<newline>''
       @ ''    ''
       @ categories_html
       @ ''\<newline>''
       @ ''  </div>\<newline>''
       @ ''</div>\<newline>'')))\<close>

definition build_products_page_html :: "string prog" where
  \<open>build_products_page_html =
     bind (emit (Call ''_build_products_page_html'' [])) (\<lambda>_.
     ret (''\<newline>''
       @ ''<div class="husin-products">\<newline>''
       @ ''  <h1>Our Products</h1>\<newline>''
       @ ''  <p>Browse curated products approved by HUSIN for quality, margin, and reliability.</p>\<newline>''
       @ ''</div>\<newline>''))\<close>

definition build_bundles_page_html :: "shop_renderer \<Rightarrow> string prog" where
  \<open>build_bundles_page_html r =
     bind (emit (Call ''_build_bundles_page_html'' [])) (\<lambda>_.
     bind (render ''shop_renderer.get_bundles_page_html''
             (get_bundles_page_html r)) (\<lambda>bundles_html.
     ret (''\<newline>''
       @ ''<div class="husin-bundles">\<newline>''
       @ ''  <h1>Bundles</h1>\<newline>''
       @ ''  <p>Save more with curated product bundles.</p>\<newline>''
       @ ''  <div class="card-grid">\<newline>''
       @ ''    ''
       @ bundles_html
       @ ''\<newline>''
       @ ''  </div>\<newline>''
       @ ''</div>\<newline>'')))\<close>

definition build_search_page_html :: "string prog" where
  \<open>build_search_page_html =
     bind (emit (Call ''_build_search_page_html'' [])) (\<lambda>_.
     ret (''\<newline>''
       @ ''<div class="husin-search">\<newline>''
       @ ''  <h1>Search Results</h1>\<newline>''
       @ ''  <div id="husin-search-results">\<newline>''
       @ ''    <!-- Agent 1 renders search results server-side if needed -->\<newline>''
       @ ''  </div>\<newline>''
       @ ''</div>\<newline>''))\<close>

definition build_static_page_html :: "string \<Rightarrow> string \<Rightarrow> string prog" where
  \<open>build_static_page_html title body =
     bind (emit (Call ''_build_static_page_html'' [Some title, Some body])) (\<lambda>_.
     ret (''\<newline>''
       @ ''<div class="husin-static">\<newline>''
       @ ''  <h1>''
       @ title
       @ ''</h1>\<newline>''
       @ ''  <p>''
       @ body
       @ ''</p>\<newline>''
       @ ''</div>\<newline>''))\<close>

section \<open>The publish cycle\<close>

definition publish_all :: "globals \<Rightarrow> world \<Rightarrow> shop_renderer \<Rightarrow> unit prog" where
  "publish_all g w r =
     bind (print ''>> [AGENT 01] Publishing approved content to Systeme.io...'') (\<lambda>_.
     bind (build_home_page_html r) (\<lambda>home_html.
     bind (update_page g w (SYSTEME_HOME_PAGE_ID g) home_html) (\<lambda>_.
     bind (build_categories_page_html r) (\<lambda>categories_html.
     bind (update_page g w (SYSTEME_CATEGORIES_PAGE_ID g) categories_html) (\<lambda>_.
     bind build_products_page_html (\<lambda>products_html.
     bind (update_page g w (SYSTEME_PRODUCTS_PAGE_ID g) products_html) (\<lambda>_.
     bind (build_bundles_page_html r) (\<lambda>bundles_html.
     bind (update_page g w (SYSTEME_BUNDLES_PAGE_ID g) bundles_html) (\<lambda>_.
     bind build_search_page_html (\<lambda>search_html.
     bind (update_page g w (SYSTEME_SEARCH_PAGE_ID g) search_html) (\<lambda>_.
     bind (if truthy (SYSTEME_CONTACT_PAGE_ID g) then
             bind (build_static_page_html ''Contact''
                     ''For inquiries, please reach out via the contact form on this page.'')
               (\<lambda>contact_html. update_page g w (SYSTEME_CONTACT_PAGE_ID g) contact_html)
           else ret ()) (\<lambda>_.
     bind (if truthy (SYSTEME_TERMS_PAGE_ID g) then
             bind (build_static_page_html ''Terms & Conditions''
                     ''These are the terms and conditions for using HUSIN services.'')
               (\<lambda>terms_html. update_page g w (SYSTEME_TERMS_PAGE_ID g) terms_html)
           else ret ()) (\<lambda>_.
     bind (if truthy (SYSTEME_PRIVACY_PAGE_ID g) then
             bind (build_static_page_html ''Privacy Policy''
                     ''We respect your privacy and handle your data with care.'')
               (\<lambda>privacy_html. update_page g w (SYSTEME_PRIVACY_PAGE_ID g) privacy_html)
           else ret ()) (\<lambda>_.
     print ''>> [AGENT 01] Publish cycle complete.''))))))))))))))"

section \<open>Start-up\<close>

text \<open>
  The process environment, after \<^verbatim>\<open>load_dotenv()\<close>, is a map from names to strings.
  \<open>getenv_or\<close> is \<^verbatim>\<open>os.getenv(name, default)\<close>.
\<close>

type_synonym environ = "string \<rightharpoonup> string"

definition getenv :: "environ \<Rightarrow> string \<Rightarrow> string option" where
  "getenv env name = env name"

definition getenv_or :: "environ \<Rightarrow> string \<Rightarrow> string \<Rightarrow> string" where
  "getenv_or env name dflt = (case env name of None \<Rightarrow> dflt | Some v \<Rightarrow> v)"

text \<open>
  What \<^verbatim>\<open>firebase_admin\<close> does is outside the script: \<open>apps\<close> says whether
  \<^verbatim>\<open>firebase_admin._apps\<close> is non-empty, and the three calls return or raise.
\<close>

record firebase_admin =
  apps :: bool
  Certificate :: "string \<Rightarrow> exn + unit"
  initialize_app :: "exn + unit"
  firestore_client :: "exn + unit"

text \<open>
  \<^verbatim>\<open>FirestoreClient.__init__\<close> of \<^verbatim>\<open>firestore_client.py\<close>; \<open>path_exists\<close> is
  \<^verbatim>\<open>os.path.exists\<close>. The value returned stands for the attribute \<^verbatim>\<open>db\<close>.
\<close>

definition FirestoreClient_init ::
  "environ \<Rightarrow> (string \<Rightarrow> bool) \<Rightarrow> firebase_admin \<Rightarrow> string option \<Rightarrow> unit prog" where
  "FirestoreClient_init env path_exists fb service_account_path =
     (let service_account_path =
            (if \<not> truthy service_account_path then
               Some (getenv_or env ''SERVICE_ACCOUNT_PATH''
                       ''/home/HUSINPY/Husin_Network/Keys/service_account.json'')
             else service_account_path)
      in if \<not> truthy service_account_path \<or> \<not> path_exists (fmt service_account_path) then
           raise (Exn ''RuntimeError''
                    (''Service account file not found: '' @ fmt service_account_path))
         else
           bind (if \<not> apps fb then
                   bind (outcome (Certificate fb (fmt service_account_path))) (\<lambda>cred.
                   bind (outcome (initialize_app fb)) (\<lambda>_.
                   emit (Log ''Initialized Firebase app with provided service account.'')))
                 else
                   emit (Log ''Firebase app already initialized; reusing existing app.'')) (\<lambda>_.
           outcome (firestore_client fb)))"

text \<open>
  The module body of \<^verbatim>\<open>agent1_core.py\<close> from the first assignment to \<^verbatim>\<open>_db\<close>:
  what importing the module does once the modules it imports are loaded.
\<close>

definition module_import ::
  "environ \<Rightarrow> (string \<Rightarrow> bool) \<Rightarrow> firebase_admin \<Rightarrow> globals prog" where
  "module_import env path_exists fb =
     (let g = \<lparr>APP_ID = getenv_or env ''APP_ID'' ''husin-network'',
               SERVICE_ACCOUNT_PATH = getenv_or env ''SERVICE_ACCOUNT_PATH''
                 ''/home/HUSINPY/Husin_Network/Keys/service_account.json'',
               SYSTEME_API_KEY = getenv env ''SYSTEME_API_KEY'',
               SYSTEME_API_BASE = getenv_or env ''SYSTEME_API_BASE'' ''https://api.systeme.io'',
               SYSTEME_WEBSITE_ID = getenv env ''SYSTEME_WEBSITE_ID'',
               SYSTEME_HOME_PAGE_ID = getenv env ''SYSTEME_HOME_PAGE_ID'',
               SYSTEME_CATEGORIES_PAGE_ID = getenv env ''SYSTEME_CATEGORIES_PAGE_ID'',
               SYSTEME_CATEGORY_TEMPLATE_ID = getenv env ''SYSTEME_CATEGORY_TEMPLATE_ID'',
               SYSTEME_PRODUCTS_PAGE_ID = getenv env ''SYSTEME_PRODUCTS_PAGE_ID'',
               SYSTEME_PRODUCT_TEMPLATE_ID = getenv env ''SYSTEME_PRODUCT_TEMPLATE_ID'',
               SYSTEME_BUNDLES_PAGE_ID = getenv env ''SYSTEME_BUNDLES_PAGE_ID'',
               SYSTEME_BUNDLE_TEMPLATE_ID = getenv env ''SYSTEME_BUNDLE_TEMPLATE_ID'',
               SYSTEME_SEARCH_PAGE_ID = getenv env ''SYSTEME_SEARCH_PAGE_ID'',
               SYSTEME_CONTACT_PAGE_ID = getenv env ''SYSTEME_CONTACT_PAGE_ID'',
               SYSTEME_TERMS_PAGE_ID = getenv env ''SYSTEME_TERMS_PAGE_ID'',
               SYSTEME_PRIVACY_PAGE_ID = getenv env ''SYSTEME_PRIVACY_PAGE_ID''\<rparr>
      in if \<not> truthy (SYSTEME_API_KEY g) \<or> \<not> truthy (SYSTEME_WEBSITE_ID g) then
           raise (Exn ''RuntimeError'' ''Systeme.io env vars missing'')
         else
           bind (FirestoreClient_init env path_exists fb (Some (SERVICE_ACCOUNT_PATH g)))
             (\<lambda>db. ret g))"

text \<open>Running the script: the module body, then the \<^verbatim>\<open>__main__\<close> block.\<close>

definition run_script ::
  "environ \<Rightarrow> (string \<Rightarrow> bool) \<Rightarrow> firebase_admin \<Rightarrow> world \<Rightarrow> shop_renderer \<Rightarrow> unit prog" where
  "run_script env path_exists fb w r =
     bind (module_import env path_exists fb) (\<lambda>g.
     bind (print ''>> [HUSIN] AGENT 01 (PUBLISHER) STARTED...'') (\<lambda>_.
     bind (publish_all g w r) (\<lambda>_.
     print (''>> [HUSIN] AGENT 01 (PUBLISHER) FINISHED in '' @ elapsed w @ ''s.''))))"

section \<open>Reading a trace\<close>

text \<open>
  The names of the functions called, the page identifiers passed to \<^verbatim>\<open>_update_page\<close>
  and the requests handed to \<^verbatim>\<open>requests.put\<close>, each in the order of the trace.
\<close>

fun names_of :: "event list \<Rightarrow> string list" where
  "names_of [] = []"
| "names_of (Call n args # t) = n # names_of t"
| "names_of (_ # t) = names_of t"

fun updates_of :: "event list \<Rightarrow> string option list" where
  "updates_of [] = []"
| "updates_of (Call n (page_id # args) # t) =
     (if n = ''_update_page'' then page_id # updates_of t else updates_of t)"
| "updates_of (_ # t) = updates_of t"

fun puts_of :: "event list \<Rightarrow> request list" where
  "puts_of [] = []"
| "puts_of (Put req # t) = req # puts_of t"
| "puts_of (_ # t) = puts_of t"

text \<open>
  The exception of the first call into the rendering module that raises, in the order in which
  \<^verbatim>\<open>publish_all\<close> makes these calls; \<open>None\<close> when all five calls return.
\<close>

fun first_Inl :: "(exn + 'a) list \<Rightarrow> exn option" where
  "first_Inl [] = None"
| "first_Inl (Inl e # rs) = Some e"
| "first_Inl (Inr v # rs) = first_Inl rs"

definition first_raise :: "shop_renderer \<Rightarrow> exn option" where
  "first_raise r =
     first_Inl [get_featured_categories_html r, get_featured_products_html r,
                get_featured_bundles_html r, get_all_categories_html r,
                get_bundles_page_html r]"

text \<open>The request that \<^verbatim>\<open>_update_page\<close> hands to \<^verbatim>\<open>requests.put\<close>.\<close>

abbreviation page_request :: "globals \<Rightarrow> world \<Rightarrow> string \<Rightarrow> string \<Rightarrow> request" where
  "page_request g w page_id html \<equiv>
     \<lparr>url = SYSTEME_API_BASE g @ ''/sites/'' @ fmt (SYSTEME_WEBSITE_ID g)
              @ ''/pages/'' @ page_id,
      headers = [(''Content-Type'', Some ''application/json''),
                 (''X-API-Key'', SYSTEME_API_KEY g)],
      data = json_dumps w (JDict [(''content'', JStr html)]),
      timeout = 60\<rparr>"

abbreviation complete_line :: string where
  "complete_line \<equiv> ''>> [AGENT 01] Publish cycle complete.''"

section \<open>Example inputs\<close>

text \<open>
  A configuration with the home, products and terms pages configured, the search page set to
  the empty string and the other pages unset.
\<close>

definition demo_globals :: globals where
  "demo_globals =
     \<lparr>APP_ID = ''husin-network'',
      SERVICE_ACCOUNT_PATH = ''/keys/sa.json'',
      SYSTEME_API_KEY = Some ''k-123'',
      SYSTEME_API_BASE = ''https://api.systeme.io'',
      SYSTEME_WEBSITE_ID = Some ''site-1'',
      SYSTEME_HOME_PAGE_ID = Some ''11'',
      SYSTEME_CATEGORIES_PAGE_ID = None,
      SYSTEME_CATEGORY_TEMPLATE_ID = None,
      SYSTEME_PRODUCTS_PAGE_ID = Some ''33'',
      SYSTEME_PRODUCT_TEMPLATE_ID = None,
      SYSTEME_BUNDLES_PAGE_ID = None,
      SYSTEME_BUNDLE_TEMPLATE_ID = None,
      SYSTEME_SEARCH_PAGE_ID = Some [],
      SYSTEME_CONTACT_PAGE_ID = None,
      SYSTEME_TERMS_PAGE_ID = Some ''77'',
      SYSTEME_PRIVACY_PAGE_ID = None\<rparr>"

text \<open>
  A world whose first request is answered 200, whose second request raises and whose later
  requests are answered 503. Its \<open>json_dumps\<close> is a stand-in that writes the object without
  escaping, enough to evaluate the examples.
\<close>

fun demo_dumps :: "json \<Rightarrow> string" where
  \<open>demo_dumps (JStr s) = ''"'' @ s @ ''"''\<close>
| \<open>demo_dumps (JDict [(k, v)]) = ''{"'' @ k @ ''": '' @ demo_dumps v @ ''}''\<close>
| \<open>demo_dumps (JDict kvs) = ''{...}''\<close>

definition demo_world :: world where
  "demo_world =
     \<lparr>requests_put = (\<lambda>t req.
        if puts_of t = [] then Inr \<lparr>status_code = 200, resp_text = ''ok''\<rparr>
        else if length (puts_of t) = 1 then Inl (Exn ''ConnectionError'' ''connection reset'')
        else Inr \<lparr>status_code = 503, resp_text = ''busy''\<rparr>),
      json_dumps = demo_dumps,
      elapsed = ''0.42''\<rparr>"

definition demo_renderer :: shop_renderer where
  "demo_renderer =
     \<lparr>get_featured_categories_html = Inr ''<a>c</a>'',
      get_featured_products_html = Inr ''<a>p</a>'',
      get_featured_bundles_html = Inr ''<a>b</a>'',
      get_all_categories_html = Inr ''<a>all</a>'',
      get_bundles_page_html = Inr ''<a>bundles</a>''\<rparr>"

text \<open>A renderer whose document store cannot be reached: its first call raises.\<close>

definition down_renderer :: shop_renderer where
  "down_renderer =
     demo_renderer\<lparr>get_featured_categories_html := Inl (Exn ''ServiceUnavailable'' ''503 store down'')\<rparr>"

text \<open>
  An environment that sets the API key but no website identifier, and one that sets both and
  names a credential file.
\<close>

definition demo_environ :: environ where
  "demo_environ =
     [''SYSTEME_API_KEY'' \<mapsto> ''k-123'', ''SYSTEME_HOME_PAGE_ID'' \<mapsto> ''11'']"

definition full_environ :: environ where
  "full_environ =
     [''SYSTEME_API_KEY'' \<mapsto> ''k-123'', ''SYSTEME_WEBSITE_ID'' \<mapsto> ''site-1'',
      ''SERVICE_ACCOUNT_PATH'' \<mapsto> ''/keys/sa.json'']"

text \<open>A world that answers every request with status 503.\<close>

definition busy_world :: world where
  "busy_world =
     demo_world\<lparr>requests_put := (\<lambda>t req. Inr \<lparr>status_code = 503, resp_text = ''busy''\<rparr>)\<rparr>"

text \<open>A world in which every request raises.\<close>

definition offline_world :: world where
  "offline_world =
     demo_world\<lparr>requests_put := (\<lambda>t req. Inl (Exn ''ConnectionError'' ''no route to host''))\<rparr>"

definition demo_firebase :: firebase_admin where
  "demo_firebase =
     \<lparr>apps = False, Certificate = (\<lambda>p. Inr ()), initialize_app = Inr (),
      firestore_client = Inr ()\<rparr>"

section \<open>Basic facts\<close>

subsection \<open>Running the monad\<close>

lemma bind_ret [simp]: "bind (ret x) k t = k x t"
  by (simp add: bind_def ret_def)

lemma bind_emit [simp]: "bind (emit ev) k t = k () (t @ [ev])"
  by (simp add: bind_def emit_def)

lemma bind_print [simp]: "bind (print s) k t = k () (t @ [Print s])"
  by (simp add: print_def)

lemma bind_raise [simp]: "bind (raise e) k t = (Inl e, t)"
  by (simp add: bind_def raise_def)

lemma bind_assoc: "bind (bind m f) k = bind m (\<lambda>x. bind (f x) k)"
  by (auto simp: bind_def fun_eq_iff split: prod.splits sum.splits)

lemma bind_render_Inr [simp]: "bind (render n (Inr v)) k t = k v (t @ [Call n []])"
  by (simp add: render_def bind_def emit_def outcome_def)

lemma bind_render_Inl [simp]: "bind (render n (Inl e)) k t = (Inl e, t @ [Call n []])"
  by (simp add: render_def bind_def emit_def outcome_def)

lemma print_run [simp]: "print s t = (Inr (), t @ [Print s])"
  by (simp add: print_def emit_def)

lemma update_page_runs:
  "update_page g w page_id html t =
     (Inr (), t @ Call ''_update_page'' [page_id, Some html] #
        (if \<not> truthy page_id then [Print ''[AGENT 01] Skipping page update (no page_id).'']
         else [Put (page_request g w (fmt page_id) html),
               Print (case requests_put w (t @ [Call ''_update_page'' [page_id, Some html]])
                             (page_request g w (fmt page_id) html) of
                        Inr resp \<Rightarrow>
                          if 200 \<le> status_code resp \<and> status_code resp < 300 then
                            ''[AGENT 01] Updated page '' @ fmt page_id @ '' successfully.''
                          else ''[AGENT 01] Failed to update page '' @ fmt page_id
                                 @ ''. Status: '' @ str_int (status_code resp)
                                 @ '', Body: '' @ resp_text resp
                      | Inl e \<Rightarrow> ''[AGENT 01] ERROR updating page '' @ fmt page_id
                                 @ '': '' @ exn_str e)]))"
proof (cases "truthy page_id")
  case False
  then show ?thesis
    by (simp add: update_page_def)
next
  case True
  show ?thesis
  proof (cases "requests_put w (t @ [Call ''_update_page'' [page_id, Some html]])
                  (page_request g w (fmt page_id) html)")
    case (Inl e)
    with True show ?thesis
      by (simp add: update_page_def systeme_headers_def put_def try_except_def bind_def
            emit_def print_def Let_def)
  next
    case (Inr resp)
    with True show ?thesis
      by (simp add: update_page_def systeme_headers_def put_def try_except_def bind_def
            emit_def print_def Let_def)
  qed
qed

lemma bind_update_page [simp]:
  "bind (update_page g w page_id html) k t = k () (snd (update_page g w page_id html t))"
  by (simp add: bind_def update_page_runs)

subsection \<open>What one page update leaves in the trace\<close>

lemma names_of_append [simp]: "names_of (a @ b) = names_of a @ names_of b"
  by (induction a rule: names_of.induct) simp_all

lemma updates_of_append [simp]: "updates_of (a @ b) = updates_of a @ updates_of b"
  by (induction a rule: updates_of.induct) simp_all

lemma puts_of_append [simp]: "puts_of (a @ b) = puts_of a @ puts_of b"
  by (induction a rule: puts_of.induct) simp_all

lemma fst_update_page [simp]: "fst (update_page g w page_id html t) = Inr ()"
  by (simp add: update_page_runs)

lemma names_of_update_page [simp]:
  "names_of (snd (update_page g w page_id html t)) = names_of t @ [''_update_page'']"
  by (simp add: update_page_runs)

lemma updates_of_update_page [simp]:
  "updates_of (snd (update_page g w page_id html t)) = updates_of t @ [page_id]"
  by (simp add: update_page_runs)

lemma puts_of_update_page [simp]:
  "puts_of (snd (update_page g w page_id html t)) =
     puts_of t @ (if truthy page_id then [page_request g w (fmt page_id) html] else [])"
  by (simp add: update_page_runs)

lemma count_update_page [simp]:
  "count_list (snd (update_page g w page_id html t)) (Print complete_line) =
     count_list t (Print complete_line)"
  by (simp add: update_page_runs split: sum.splits)

lemma bind_if: "bind (if c then a else b) k = (if c then bind a k else bind b k)"
  by simp

lemmas build_defs = build_home_page_html_def build_categories_page_html_def
  build_products_page_html_def build_bundles_page_html_def build_search_page_html_def
  build_static_page_html_def

lemma first_raise_None:
  assumes "first_raise r = None"
  obtains fc fp fb ac bp where
    "get_featured_categories_html r = Inr fc" "get_featured_products_html r = Inr fp"
    "get_featured_bundles_html r = Inr fb" "get_all_categories_html r = Inr ac"
    "get_bundles_page_html r = Inr bp"
proof -
  have *: "first_Inl (x # xs) = None \<Longrightarrow> (\<exists>v. x = Inr v) \<and> first_Inl xs = None"
    for x :: "exn + string" and xs
    by (cases x) simp_all
  from assms show ?thesis
    using that unfolding first_raise_def by (blast dest: *)
qed

section \<open>The page updater: claims C2 to C5\<close>

text \<open>
  Claim C2. For every non-empty page identifier and every HTML string, \<^verbatim>\<open>_update_page\<close>
  hands exactly one request to \<^verbatim>\<open>requests.put\<close>. Its URL is the API base, then
  \<^verbatim>\<open>/sites/\<close>, the website identifier, \<^verbatim>\<open>/pages/\<close> and the page identifier; its
  body is \<^verbatim>\<open>json.dumps\<close> of the dictionary whose only key \<^verbatim>\<open>content\<close> holds the
  HTML string unchanged; its headers are \<^verbatim>\<open>Content-Type: application/json\<close> and
  \<^verbatim>\<open>X-API-Key\<close> with the configured key; its timeout is 60 seconds.
\<close>

theorem update_page_sends_one_put:
  assumes "page_id \<noteq> []"
  shows "puts_of (snd (update_page g w (Some page_id) html t)) =
           puts_of t @
           [\<lparr>url = SYSTEME_API_BASE g @ ''/sites/'' @ fmt (SYSTEME_WEBSITE_ID g)
                    @ ''/pages/'' @ page_id,
             headers = [(''Content-Type'', Some ''application/json''),
                        (''X-API-Key'', SYSTEME_API_KEY g)],
             data = json_dumps w (JDict [(''content'', JStr html)]),
             timeout = 60\<rparr>]"
  using assms by (simp add: update_page_runs)


theorem update_page_sends_one_put_witness:
  \<open>''42'' \<noteq> [] \<and>
   puts_of (snd (update_page demo_globals demo_world (Some ''42'') ''<p>hi</p>'' [])) =
     [\<lparr>url = ''https://api.systeme.io/sites/site-1/pages/42'',
       headers = [(''Content-Type'', Some ''application/json''), (''X-API-Key'', Some ''k-123'')],
       data = ''{"content": "<p>hi</p>"}'',
       timeout = 60\<rparr>]\<close>
  using update_page_sends_one_put [of "''42''" demo_globals demo_world "''<p>hi</p>''" "[]"]
  by (simp add: demo_globals_def demo_world_def)

text \<open>
  Claim C3. When the page identifier is \<^verbatim>\<open>None\<close> or the empty string,
  \<^verbatim>\<open>_update_page\<close> returns normally after printing the skip line, whatever the HTML:
  the trace gains the call and that line, and no request.
\<close>

theorem update_page_skips_falsy_id:
  assumes "\<not> truthy page_id"
  shows "update_page g w page_id html t =
           (Inr (), t @ [Call ''_update_page'' [page_id, Some html],
                         Print ''[AGENT 01] Skipping page update (no page_id).''])"
  using assms by (simp add: update_page_runs)

theorem update_page_skips_falsy_id_witness:
  "\<not> truthy (Some []) \<and> \<not> truthy None \<and>
   update_page demo_globals demo_world (Some []) ''<p>hi</p>'' [] =
     (Inr (), [Call ''_update_page'' [Some [], Some ''<p>hi</p>''],
               Print ''[AGENT 01] Skipping page update (no page_id).'']) \<and>
   puts_of (snd (update_page demo_globals demo_world None ''<p>hi</p>'' [])) = []"
  using update_page_skips_falsy_id [of "Some []" demo_globals demo_world "''<p>hi</p>''" "[]"]
    update_page_skips_falsy_id [of None demo_globals demo_world "''<p>hi</p>''" "[]"]
  by simp

text \<open>
  Claim C4. When the request returns a response, \<^verbatim>\<open>_update_page\<close> returns normally.
  It prints the success line if the status lies in [200, 300), and otherwise the failure line
  with the status and the body of the response.
\<close>

theorem update_page_response:
  assumes "page_id \<noteq> []"
    and "requests_put w (t @ [Call ''_update_page'' [Some page_id, Some html]])
           (page_request g w page_id html) = Inr resp"
  shows "update_page g w (Some page_id) html t =
           (Inr (),
            t @ [Call ''_update_page'' [Some page_id, Some html],
                 Put (page_request g w page_id html),
                 Print (if 200 \<le> status_code resp \<and> status_code resp < 300 then
                          ''[AGENT 01] Updated page '' @ page_id @ '' successfully.''
                        else ''[AGENT 01] Failed to update page '' @ page_id
                               @ ''. Status: '' @ str_int (status_code resp)
                               @ '', Body: '' @ resp_text resp)])"
  using assms by (simp add: update_page_runs)

theorem update_page_response_witness:
  "''77'' \<noteq> [] \<and>
   requests_put busy_world ([] @ [Call ''_update_page'' [Some ''77'', Some ''<p>hi</p>'']])
     (page_request demo_globals busy_world ''77'' ''<p>hi</p>'')
     = Inr \<lparr>status_code = 503, resp_text = ''busy''\<rparr> \<and>
   update_page demo_globals busy_world (Some ''77'') ''<p>hi</p>'' [] =
     (Inr (),
      [Call ''_update_page'' [Some ''77'', Some ''<p>hi</p>''],
       Put (page_request demo_globals busy_world ''77'' ''<p>hi</p>''),
       Print ''[AGENT 01] Failed to update page 77. Status: 503, Body: busy''])"
  using update_page_response [of "''77''" busy_world "[]" "''<p>hi</p>''" demo_globals
      "\<lparr>status_code = 503, resp_text = ''busy''\<rparr>"]
  by (simp add: busy_world_def str_int_def str_nat.simps)

text \<open>
  Claim C5. When the request raises an exception, \<^verbatim>\<open>_update_page\<close> catches it, prints
  the error line with the text of the exception and returns normally: nothing propagates to
  the caller.
\<close>

theorem update_page_catches_exception:
  assumes "page_id \<noteq> []"
    and "requests_put w (t @ [Call ''_update_page'' [Some page_id, Some html]])
           (page_request g w page_id html) = Inl e"
  shows "update_page g w (Some page_id) html t =
           (Inr (),
            t @ [Call ''_update_page'' [Some page_id, Some html],
                 Put (page_request g w page_id html),
                 Print (''[AGENT 01] ERROR updating page '' @ page_id @ '': '' @ exn_str e)])"
  using assms by (simp add: update_page_runs)

theorem update_page_catches_exception_witness:
  "''77'' \<noteq> [] \<and>
   requests_put offline_world ([] @ [Call ''_update_page'' [Some ''77'', Some ''<p>hi</p>'']])
     (page_request demo_globals offline_world ''77'' ''<p>hi</p>'')
     = Inl (Exn ''ConnectionError'' ''no route to host'') \<and>
   update_page demo_globals offline_world (Some ''77'') ''<p>hi</p>'' [] =
     (Inr (),
      [Call ''_update_page'' [Some ''77'', Some ''<p>hi</p>''],
       Put (page_request demo_globals offline_world ''77'' ''<p>hi</p>''),
       Print ''[AGENT 01] ERROR updating page 77: no route to host''])"
  using update_page_catches_exception [of "''77''" offline_world "[]" "''<p>hi</p>''"
      demo_globals "Exn ''ConnectionError'' ''no route to host''"]
  by (simp add: offline_world_def)

section \<open>Start-up: claims C6 and C8\<close>

text \<open>
  Claim C6. When \<^verbatim>\<open>SYSTEME_API_KEY\<close> or \<^verbatim>\<open>SYSTEME_WEBSITE_ID\<close> is unset or empty,
  importing the module raises \<^verbatim>\<open>RuntimeError\<close>, and so does running the script, with the
  trace unchanged: no page was built, no page update was called and nothing was printed.
\<close>

theorem import_needs_key_and_website:
  assumes "\<not> truthy (getenv env ''SYSTEME_API_KEY'') \<or>
           \<not> truthy (getenv env ''SYSTEME_WEBSITE_ID'')"
  shows "module_import env path_exists fb t =
           (Inl (Exn ''RuntimeError'' ''Systeme.io env vars missing''), t) \<and>
         run_script env path_exists fb w r t =
           (Inl (Exn ''RuntimeError'' ''Systeme.io env vars missing''), t)"
proof -
  from assms have "module_import env path_exists fb t =
      (Inl (Exn ''RuntimeError'' ''Systeme.io env vars missing''), t)"
    by (auto simp add: module_import_def raise_def)
  then show ?thesis
    by (simp add: run_script_def bind_def)
qed

theorem import_needs_key_and_website_witness:
  "\<not> truthy (getenv demo_environ ''SYSTEME_WEBSITE_ID'') \<and>
   run_script demo_environ (\<lambda>p. True) demo_firebase demo_world demo_renderer [] =
     (Inl (Exn ''RuntimeError'' ''Systeme.io env vars missing''), [])"
  using import_needs_key_and_website
    [of demo_environ "\<lambda>p. True" demo_firebase "[]" demo_world demo_renderer]
  by (simp add: demo_environ_def getenv_def)

text \<open>
  The constructor of the document-store client, for any argument: the path it settles on is
  the argument if that is non-empty and the environment's value or the default otherwise.
\<close>

lemma FirestoreClient_init_raises:
  assumes "p = (if truthy arg then fmt arg
                else getenv_or env ''SERVICE_ACCOUNT_PATH''
                       ''/home/HUSINPY/Husin_Network/Keys/service_account.json'')"
    and "p = [] \<or> \<not> path_exists p"
  shows "FirestoreClient_init env path_exists fb arg t =
           (Inl (Exn ''RuntimeError'' (''Service account file not found: '' @ p)), t)"
  using assms by (cases arg) (auto simp add: FirestoreClient_init_def raise_def Let_def)

text \<open>
  Claim C8. Let \<open>p\<close> be the credential path the module reads from the environment. When
  \<open>p\<close> is empty or names no existing file, constructing the document-store client on \<open>p\<close>
  raises \<^verbatim>\<open>RuntimeError\<close>, and running the script ends in a \<^verbatim>\<open>RuntimeError\<close> with
  the trace unchanged: that of the missing key or website identifier if one of them is missing,
  and that of the missing file otherwise.
\<close>

theorem startup_without_credential_file:
  assumes "p = getenv_or env ''SERVICE_ACCOUNT_PATH''
                 ''/home/HUSINPY/Husin_Network/Keys/service_account.json''"
    and "p = [] \<or> \<not> path_exists p"
  shows "FirestoreClient_init env path_exists fb (Some p) t =
           (Inl (Exn ''RuntimeError'' (''Service account file not found: '' @ p)), t) \<and>
         run_script env path_exists fb w r t =
           (Inl (Exn ''RuntimeError''
                   (if \<not> truthy (getenv env ''SYSTEME_API_KEY'') \<or>
                       \<not> truthy (getenv env ''SYSTEME_WEBSITE_ID'')
                    then ''Systeme.io env vars missing''
                    else ''Service account file not found: '' @ p)), t)"
proof -
  have init: "FirestoreClient_init env path_exists fb (Some p) t =
      (Inl (Exn ''RuntimeError'' (''Service account file not found: '' @ p)), t)"
    using assms by (intro FirestoreClient_init_raises) auto
  have "module_import env path_exists fb t =
      (Inl (Exn ''RuntimeError''
              (if \<not> truthy (getenv env ''SYSTEME_API_KEY'') \<or>
                  \<not> truthy (getenv env ''SYSTEME_WEBSITE_ID'')
               then ''Systeme.io env vars missing''
               else ''Service account file not found: '' @ p)), t)"
    using init assms(1) by (simp add: module_import_def raise_def bind_def)
  then have "run_script env path_exists fb w r t =
      (Inl (Exn ''RuntimeError''
              (if \<not> truthy (getenv env ''SYSTEME_API_KEY'') \<or>
                  \<not> truthy (getenv env ''SYSTEME_WEBSITE_ID'')
               then ''Systeme.io env vars missing''
               else ''Service account file not found: '' @ p)), t)"
    by (simp add: run_script_def bind_def)
  with init show ?thesis
    by simp
qed

theorem startup_without_credential_file_witness:
  "''/keys/sa.json'' = getenv_or full_environ ''SERVICE_ACCOUNT_PATH''
                         ''/home/HUSINPY/Husin_Network/Keys/service_account.json'' \<and>
   \<not> (\<lambda>p. False) ''/keys/sa.json'' \<and>
   FirestoreClient_init full_environ (\<lambda>p. False) demo_firebase (Some ''/keys/sa.json'') [] =
     (Inl (Exn ''RuntimeError'' ''Service account file not found: /keys/sa.json''), []) \<and>
   run_script full_environ (\<lambda>p. False) demo_firebase demo_world demo_renderer [] =
     (Inl (Exn ''RuntimeError'' ''Service account file not found: /keys/sa.json''), [])"
  using startup_without_credential_file
    [of "''/keys/sa.json''" full_environ "\<lambda>p. False" demo_firebase "[]" demo_world demo_renderer]
  by (simp add: full_environ_def getenv_or_def getenv_def)

section \<open>The publish cycle: claims C1, C7, C9 and C10\<close>

text \<open>
  Claim C1, amended. Provided every call into the rendering module returns, for every
  configuration and whatever the outcome of each request, \<^verbatim>\<open>publish_all\<close> calls
  \<^verbatim>\<open>_update_page\<close> for the home, categories, products, bundles and search pages, in
  that order, and after them for each of the contact, terms and privacy pages whose identifier
  is configured, and for no other.
\<close>

theorem publish_all_updates:
  assumes "first_raise r = None"
  shows "updates_of (snd (publish_all g w r t)) =
           updates_of t @
           [SYSTEME_HOME_PAGE_ID g, SYSTEME_CATEGORIES_PAGE_ID g, SYSTEME_PRODUCTS_PAGE_ID g,
            SYSTEME_BUNDLES_PAGE_ID g, SYSTEME_SEARCH_PAGE_ID g] @
           filter truthy
             [SYSTEME_CONTACT_PAGE_ID g, SYSTEME_TERMS_PAGE_ID g, SYSTEME_PRIVACY_PAGE_ID g]"
proof -
  from assms obtain fc fp fb ac bp where
    "get_featured_categories_html r = Inr fc" "get_featured_products_html r = Inr fp"
    "get_featured_bundles_html r = Inr fb" "get_all_categories_html r = Inr ac"
    "get_bundles_page_html r = Inr bp"
    by (rule first_raise_None)
  then show ?thesis
    by (simp add: publish_all_def build_defs bind_assoc bind_if)
qed

theorem publish_all_updates_witness:
  "first_raise demo_renderer = None \<and>
   updates_of (snd (publish_all demo_globals offline_world demo_renderer [])) =
     [Some ''11'', None, Some ''33'', None, Some [], Some ''77'']"
  using publish_all_updates [of demo_renderer demo_globals offline_world "[]"]
  by (simp add: first_raise_def demo_renderer_def demo_globals_def)

text \<open>
  Claim C1 as stated has no such proviso. With a rendering module whose first call raises,
  \<^verbatim>\<open>publish_all\<close> calls \<^verbatim>\<open>_update_page\<close> for none of the mandatory pages.
\<close>

theorem publish_all_updates_counterexample:
  "updates_of (snd (publish_all demo_globals demo_world down_renderer [])) \<noteq>
     updates_of [] @
     [SYSTEME_HOME_PAGE_ID demo_globals, SYSTEME_CATEGORIES_PAGE_ID demo_globals,
      SYSTEME_PRODUCTS_PAGE_ID demo_globals, SYSTEME_BUNDLES_PAGE_ID demo_globals,
      SYSTEME_SEARCH_PAGE_ID demo_globals] @
     filter truthy
       [SYSTEME_CONTACT_PAGE_ID demo_globals, SYSTEME_TERMS_PAGE_ID demo_globals,
        SYSTEME_PRIVACY_PAGE_ID demo_globals]"
  by (simp add: publish_all_def build_home_page_html_def bind_assoc down_renderer_def
        demo_renderer_def demo_globals_def)

text \<open>
  Claim C7, amended. Provided every call into the rendering module returns, for every
  configuration and whatever the outcome of each request, \<^verbatim>\<open>publish_all\<close> returns
  normally, with no value, and the last thing it does is print the completion line.
\<close>

theorem publish_all_completes:
  assumes "first_raise r = None"
  shows "fst (publish_all g w r t) = Inr () \<and>
         last (snd (publish_all g w r t)) = Print complete_line"
proof -
  from assms obtain fc fp fb ac bp where
    "get_featured_categories_html r = Inr fc" "get_featured_products_html r = Inr fp"
    "get_featured_bundles_html r = Inr fb" "get_all_categories_html r = Inr ac"
    "get_bundles_page_html r = Inr bp"
    by (rule first_raise_None)
  then show ?thesis
    by (simp add: publish_all_def build_defs bind_assoc bind_if)
qed

theorem publish_all_completes_witness:
  "first_raise demo_renderer = None \<and>
   fst (publish_all demo_globals offline_world demo_renderer []) = Inr () \<and>
   last (snd (publish_all demo_globals offline_world demo_renderer [])) = Print complete_line"
  using publish_all_completes [of demo_renderer demo_globals offline_world "[]"]
  by (simp add: first_raise_def demo_renderer_def)

text \<open>
  Claim C7 as stated has no such proviso. With a rendering module whose first call raises,
  \<^verbatim>\<open>publish_all\<close> raises and the completion line is not printed.
\<close>

theorem publish_all_completes_counterexample:
  "fst (publish_all demo_globals demo_world down_renderer []) =
     Inl (Exn ''ServiceUnavailable'' ''503 store down'') \<and>
   Print complete_line \<notin> set (snd (publish_all demo_globals demo_world down_renderer []))"
  by (simp add: publish_all_def build_home_page_html_def bind_assoc down_renderer_def
        demo_renderer_def)

text \<open>What \<^verbatim>\<open>publish_all\<close> does when one of the five rendering calls raises, call by call.\<close>

lemma raises_fc:
  assumes "get_featured_categories_html r = Inl e"
  shows "publish_all g w r t =
           (Inl e, t @ [Print ''>> [AGENT 01] Publishing approved content to Systeme.io...'',
                        Call ''_build_home_page_html'' [],
                        Call ''shop_renderer.get_featured_categories_html'' []])"
  using assms by (simp add: publish_all_def build_home_page_html_def bind_assoc)

lemma raises_fp:
  assumes "get_featured_categories_html r = Inr fc" "get_featured_products_html r = Inl e"
  shows "publish_all g w r t =
           (Inl e, t @ [Print ''>> [AGENT 01] Publishing approved content to Systeme.io...'',
                        Call ''_build_home_page_html'' [],
                        Call ''shop_renderer.get_featured_categories_html'' [],
                        Call ''shop_renderer.get_featured_products_html'' []])"
  using assms by (simp add: publish_all_def build_home_page_html_def bind_assoc)

lemma raises_fb:
  assumes "get_featured_categories_html r = Inr fc" "get_featured_products_html r = Inr fp"
    "get_featured_bundles_html r = Inl e"
  shows "publish_all g w r t =
           (Inl e, t @ [Print ''>> [AGENT 01] Publishing approved content to Systeme.io...'',
                        Call ''_build_home_page_html'' [],
                        Call ''shop_renderer.get_featured_categories_html'' [],
                        Call ''shop_renderer.get_featured_products_html'' [],
                        Call ''shop_renderer.get_featured_bundles_html'' []])"
  using assms by (simp add: publish_all_def build_home_page_html_def bind_assoc)

lemma raises_ac:
  assumes "get_featured_categories_html r = Inr fc" "get_featured_products_html r = Inr fp"
    "get_featured_bundles_html r = Inr fb" "get_all_categories_html r = Inl e"
  shows "fst (publish_all g w r t) = Inl e"
    and "updates_of (snd (publish_all g w r t)) = updates_of t @ [SYSTEME_HOME_PAGE_ID g]"
    and "count_list (snd (publish_all g w r t)) (Print complete_line) =
           count_list t (Print complete_line)"
  using assms
  by (simp_all add: publish_all_def build_home_page_html_def build_categories_page_html_def
        bind_assoc)

lemma raises_bp:
  assumes "get_featured_categories_html r = Inr fc" "get_featured_products_html r = Inr fp"
    "get_featured_bundles_html r = Inr fb" "get_all_categories_html r = Inr ac"
    "get_bundles_page_html r = Inl e"
  shows "fst (publish_all g w r t) = Inl e"
    and "updates_of (snd (publish_all g w r t)) =
           updates_of t @ [SYSTEME_HOME_PAGE_ID g, SYSTEME_CATEGORIES_PAGE_ID g,
                           SYSTEME_PRODUCTS_PAGE_ID g]"
    and "count_list (snd (publish_all g w r t)) (Print complete_line) =
           count_list t (Print complete_line)"
  using assms
  by (simp_all add: publish_all_def build_home_page_html_def build_categories_page_html_def
        build_products_page_html_def build_bundles_page_html_def bind_assoc)

lemma first_raise_Some:
  assumes "first_raise r = Some e"
  obtains
    (fc) "get_featured_categories_html r = Inl e"
  | (fp) fc where "get_featured_categories_html r = Inr fc"
      "get_featured_products_html r = Inl e"
  | (fb) fc fp where "get_featured_categories_html r = Inr fc"
      "get_featured_products_html r = Inr fp" "get_featured_bundles_html r = Inl e"
  | (ac) fc fp fb where "get_featured_categories_html r = Inr fc"
      "get_featured_products_html r = Inr fp" "get_featured_bundles_html r = Inr fb"
      "get_all_categories_html r = Inl e"
  | (bp) fc fp fb ac where "get_featured_categories_html r = Inr fc"
      "get_featured_products_html r = Inr fp" "get_featured_bundles_html r = Inr fb"
      "get_all_categories_html r = Inr ac" "get_bundles_page_html r = Inl e"
proof -
  have *: "first_Inl (x # xs) = Some e \<Longrightarrow>
      x = Inl e \<or> (\<exists>v. x = Inr v) \<and> first_Inl xs = Some e"
    for x :: "exn + string" and xs
    by (cases x) simp_all
  from assms have "first_Inl [get_featured_categories_html r, get_featured_products_html r,
      get_featured_bundles_html r, get_all_categories_html r, get_bundles_page_html r] = Some e"
    by (simp add: first_raise_def)
  from *[OF this] show ?thesis
  proof (elim disjE conjE exE)
    assume "get_featured_categories_html r = Inl e"
    then show ?thesis by (rule fc)
  next
    fix fc assume 1: "get_featured_categories_html r = Inr fc"
      and "first_Inl [get_featured_products_html r,
        get_featured_bundles_html r, get_all_categories_html r, get_bundles_page_html r] = Some e"
    from *[OF this(2)] show ?thesis
    proof (elim disjE conjE exE)
      assume "get_featured_products_html r = Inl e"
      with 1 show ?thesis by (rule fp)
    next
      fix fp assume 2: "get_featured_products_html r = Inr fp"
        and "first_Inl [get_featured_bundles_html r, get_all_categories_html r,
          get_bundles_page_html r] = Some e"
      from *[OF this(2)] show ?thesis
      proof (elim disjE conjE exE)
        assume "get_featured_bundles_html r = Inl e"
        with 1 2 show ?thesis by (rule fb)
      next
        fix fb assume 3: "get_featured_bundles_html r = Inr fb"
          and "first_Inl [get_all_categories_html r, get_bundles_page_html r] = Some e"
        from *[OF this(2)] show ?thesis
        proof (elim disjE conjE exE)
          assume "get_all_categories_html r = Inl e"
          with 1 2 3 show ?thesis by (rule ac)
        next
          fix ac assume 4: "get_all_categories_html r = Inr ac"
            and "first_Inl [get_bundles_page_html r] = Some e"
          from *[OF this(2)] have "get_bundles_page_html r = Inl e"
            by auto
          with 1 2 3 4 show ?thesis by (rule bp)
        qed
      qed
    qed
  qed
qed

text \<open>
  Claim C9. When a call into the rendering module raises, the exception of the first such call
  propagates out of \<^verbatim>\<open>publish_all\<close>. The completion line is not printed, and
  \<^verbatim>\<open>_update_page\<close> has been called only for the pages before the failing one: for none
  if the home page fails, for the home page if the categories page fails, and for the home,
  categories and products pages if the bundles page fails.
\<close>

theorem publish_all_build_raises:
  assumes "first_raise r = Some e"
  shows "fst (publish_all g w r t) = Inl e \<and>
         count_list (snd (publish_all g w r t)) (Print complete_line) =
           count_list t (Print complete_line) \<and>
         updates_of (snd (publish_all g w r t)) =
           updates_of t @
           (if isl (get_featured_categories_html r) \<or> isl (get_featured_products_html r) \<or>
               isl (get_featured_bundles_html r) then []
            else if isl (get_all_categories_html r) then [SYSTEME_HOME_PAGE_ID g]
            else [SYSTEME_HOME_PAGE_ID g, SYSTEME_CATEGORIES_PAGE_ID g,
                  SYSTEME_PRODUCTS_PAGE_ID g])"
  using assms
proof (cases rule: first_raise_Some)
  case fc
  then show ?thesis by (simp add: raises_fc)
next
  case (fp fc)
  then show ?thesis by (simp add: raises_fp)
next
  case (fb fc fp)
  then show ?thesis by (simp add: raises_fb)
next
  case (ac fc fp fb)
  then show ?thesis by (simp add: raises_ac)
next
  case (bp fc fp fb ac)
  then show ?thesis by (simp add: raises_bp)
qed

theorem publish_all_build_raises_witness:
  "first_raise (demo_renderer\<lparr>get_all_categories_html := Inl (Exn ''Timeout'' ''slow'')\<rparr>)
     = Some (Exn ''Timeout'' ''slow'') \<and>
   fst (publish_all demo_globals demo_world
          (demo_renderer\<lparr>get_all_categories_html := Inl (Exn ''Timeout'' ''slow'')\<rparr>) [])
     = Inl (Exn ''Timeout'' ''slow'') \<and>
   count_list (snd (publish_all demo_globals demo_world
          (demo_renderer\<lparr>get_all_categories_html := Inl (Exn ''Timeout'' ''slow'')\<rparr>) []))
       (Print complete_line) = 0 \<and>
   updates_of (snd (publish_all demo_globals demo_world
          (demo_renderer\<lparr>get_all_categories_html := Inl (Exn ''Timeout'' ''slow'')\<rparr>) []))
     = [Some ''11'']"
  using publish_all_build_raises
    [of "demo_renderer\<lparr>get_all_categories_html := Inl (Exn ''Timeout'' ''slow'')\<rparr>"
        "Exn ''Timeout'' ''slow''" demo_globals demo_world "[]"]
  by (simp add: first_raise_def demo_renderer_def demo_globals_def)

text \<open>The functions called and the URLs requested in a cycle whose rendering calls return.\<close>

lemma publish_all_names:
  assumes "get_featured_categories_html r = Inr fc" "get_featured_products_html r = Inr fp"
    "get_featured_bundles_html r = Inr fb" "get_all_categories_html r = Inr ac"
    "get_bundles_page_html r = Inr bp"
  shows "names_of (snd (publish_all g w r t)) =
           names_of t @
           [''_build_home_page_html'', ''shop_renderer.get_featured_categories_html'',
            ''shop_renderer.get_featured_products_html'',
            ''shop_renderer.get_featured_bundles_html'', ''_update_page'',
            ''_build_categories_page_html'', ''shop_renderer.get_all_categories_html'',
            ''_update_page'',
            ''_build_products_page_html'', ''_update_page'',
            ''_build_bundles_page_html'', ''shop_renderer.get_bundles_page_html'',
            ''_update_page'',
            ''_build_search_page_html'', ''_update_page''] @
           concat (map (\<lambda>page_id. if truthy page_id
                                   then [''_build_static_page_html'', ''_update_page'']
                                   else [])
                     [SYSTEME_CONTACT_PAGE_ID g, SYSTEME_TERMS_PAGE_ID g,
                      SYSTEME_PRIVACY_PAGE_ID g])"
  using assms by (simp add: publish_all_def build_defs bind_assoc bind_if)

lemma publish_all_urls:
  assumes "get_featured_categories_html r = Inr fc" "get_featured_products_html r = Inr fp"
    "get_featured_bundles_html r = Inr fb" "get_all_categories_html r = Inr ac"
    "get_bundles_page_html r = Inr bp"
  shows "map url (puts_of (snd (publish_all g w r t))) =
           map url (puts_of t) @
           map (\<lambda>page_id. SYSTEME_API_BASE g @ ''/sites/'' @ fmt (SYSTEME_WEBSITE_ID g)
                             @ ''/pages/'' @ fmt page_id)
             (filter truthy
                [SYSTEME_HOME_PAGE_ID g, SYSTEME_CATEGORIES_PAGE_ID g,
                 SYSTEME_PRODUCTS_PAGE_ID g, SYSTEME_BUNDLES_PAGE_ID g,
                 SYSTEME_SEARCH_PAGE_ID g, SYSTEME_CONTACT_PAGE_ID g,
                 SYSTEME_TERMS_PAGE_ID g, SYSTEME_PRIVACY_PAGE_ID g])"
proof -
  define U where "U = (\<lambda>page_id. SYSTEME_API_BASE g @ ''/sites/'' @ fmt (SYSTEME_WEBSITE_ID g)
                             @ ''/pages/'' @ fmt page_id)"
  define F where "F = (\<lambda>page_id. map U (filter truthy [page_id]))"
  have upd: "map url (puts_of (snd (update_page g w page_id html t'))) =
      map url (puts_of t') @ F page_id" for page_id html t'
    by (simp add: F_def U_def)
  have F_truthy: "truthy page_id \<Longrightarrow> F page_id = [U page_id]" for page_id
    by (simp add: F_def)
  have rhs: "map U (filter truthy [a, b, c, d, e, x, y, z]) =
      F a @ F b @ F c @ F d @ F e @ map U (filter truthy [x, y, z])" for a b c d e x y z
    unfolding F_def map_append [symmetric] filter_append [symmetric] by simp
  have "map url (puts_of (snd (publish_all g w r t))) =
      map url (puts_of t) @
      map U (filter truthy
        [SYSTEME_HOME_PAGE_ID g, SYSTEME_CATEGORIES_PAGE_ID g,
         SYSTEME_PRODUCTS_PAGE_ID g, SYSTEME_BUNDLES_PAGE_ID g,
         SYSTEME_SEARCH_PAGE_ID g, SYSTEME_CONTACT_PAGE_ID g,
         SYSTEME_TERMS_PAGE_ID g, SYSTEME_PRIVACY_PAGE_ID g])"
    unfolding rhs using assms
    by (simp add: publish_all_def build_defs bind_assoc bind_if upd F_truthy
          del: puts_of_update_page)
  then show ?thesis
    by (simp only: U_def)
qed

text \<open>
  Claim C10, amended. Provided every call into the rendering module returns, for every
  configuration \<^verbatim>\<open>publish_all\<close> builds each of the five mandatory pages and calls
  \<^verbatim>\<open>_update_page\<close> on it, whether or not its identifier is configured, while
  \<^verbatim>\<open>_build_static_page_html\<close> is called for an optional page only if its identifier is
  configured; and requests go out for exactly the pages, mandatory or optional, whose
  identifier is configured.
\<close>

theorem publish_all_builds:
  assumes "first_raise r = None"
  shows "names_of (snd (publish_all g w r t)) =
           names_of t @
           [''_build_home_page_html'', ''shop_renderer.get_featured_categories_html'',
            ''shop_renderer.get_featured_products_html'',
            ''shop_renderer.get_featured_bundles_html'', ''_update_page'',
            ''_build_categories_page_html'', ''shop_renderer.get_all_categories_html'',
            ''_update_page'',
            ''_build_products_page_html'', ''_update_page'',
            ''_build_bundles_page_html'', ''shop_renderer.get_bundles_page_html'',
            ''_update_page'',
            ''_build_search_page_html'', ''_update_page''] @
           concat (map (\<lambda>page_id. if truthy page_id
                                   then [''_build_static_page_html'', ''_update_page'']
                                   else [])
                     [SYSTEME_CONTACT_PAGE_ID g, SYSTEME_TERMS_PAGE_ID g,
                      SYSTEME_PRIVACY_PAGE_ID g]) \<and>
         map url (puts_of (snd (publish_all g w r t))) =
           map url (puts_of t) @
           map (\<lambda>page_id. SYSTEME_API_BASE g @ ''/sites/'' @ fmt (SYSTEME_WEBSITE_ID g)
                             @ ''/pages/'' @ fmt page_id)
             (filter truthy
                [SYSTEME_HOME_PAGE_ID g, SYSTEME_CATEGORIES_PAGE_ID g,
                 SYSTEME_PRODUCTS_PAGE_ID g, SYSTEME_BUNDLES_PAGE_ID g,
                 SYSTEME_SEARCH_PAGE_ID g, SYSTEME_CONTACT_PAGE_ID g,
                 SYSTEME_TERMS_PAGE_ID g, SYSTEME_PRIVACY_PAGE_ID g])"
proof -
  from assms obtain fc fp fb ac bp where
    "get_featured_categories_html r = Inr fc" "get_featured_products_html r = Inr fp"
    "get_featured_bundles_html r = Inr fb" "get_all_categories_html r = Inr ac"
    "get_bundles_page_html r = Inr bp"
    by (rule first_raise_None)
  then show ?thesis
    by (intro conjI publish_all_names publish_all_urls)
qed

theorem publish_all_builds_witness:
  "first_raise demo_renderer = None \<and>
   names_of (snd (publish_all demo_globals demo_world demo_renderer [])) =
     [''_build_home_page_html'', ''shop_renderer.get_featured_categories_html'',
      ''shop_renderer.get_featured_products_html'',
      ''shop_renderer.get_featured_bundles_html'', ''_update_page'',
      ''_build_categories_page_html'', ''shop_renderer.get_all_categories_html'',
      ''_update_page'',
      ''_build_products_page_html'', ''_update_page'',
      ''_build_bundles_page_html'', ''shop_renderer.get_bundles_page_html'',
      ''_update_page'',
      ''_build_search_page_html'', ''_update_page'',
      ''_build_static_page_html'', ''_update_page''] \<and>
   map url (puts_of (snd (publish_all demo_globals demo_world demo_renderer []))) =
     [''https://api.systeme.io/sites/site-1/pages/11'',
      ''https://api.systeme.io/sites/site-1/pages/33'',
      ''https://api.systeme.io/sites/site-1/pages/77'']"
  using publish_all_builds [of demo_renderer demo_globals demo_world "[]"]
  by (simp add: first_raise_def demo_renderer_def demo_globals_def)

text \<open>
  Claim C10 as stated has no such proviso. With the categories page unconfigured and a rendering
  module whose first call raises, the HTML of the categories page is never built.
\<close>

theorem publish_all_builds_counterexample:
  "\<not> truthy (SYSTEME_CATEGORIES_PAGE_ID demo_globals) \<and>
   ''_build_categories_page_html''
     \<notin> set (names_of (snd (publish_all demo_globals demo_world down_renderer [])))"
  by (simp add: publish_all_def build_home_page_html_def bind_assoc down_renderer_def
        demo_renderer_def demo_globals_def)

end
